theory Spec2Isabelle
  imports Main "HOL-Library.Word"
begin

unbundle bit_operations_syntax

section \<open>Bytes, text and the integrity digest\<close>

text \<open>
  The client of \<^verbatim>\<open>file_sender.py\<close> hands three kinds of data to its collaborators:
  raw bytes (the content of a file), text (file names, messages, digests) and Python
  values (the argument of \<^verbatim>\<open>send_json_message\<close>). Bytes are lists of 8-bit words.
  Text is a \<^typ>\<open>string\<close>: a list of characters, each read as one code point below 256.
\<close>

type_synonym byte = "8 word"
type_synonym w32 = "32 word"

subsection \<open>SHA-256\<close>

text \<open>
  The round constants and the initial state are written in decimal.
  \<^verbatim>\<open>calculate_sha256\<close> is \<^verbatim>\<open>hashlib.sha256(data).hexdigest()\<close>. The hash is the
  SHA-256 of FIPS 180-4: the message is padded to a multiple of 64 bytes, each block is
  expanded to 64 words and compressed into a state of eight 32-bit words, and the final
  state is printed as 64 lowercase hexadecimal digits.
\<close>

definition K256 :: "w32 list" where
  "K256 =
    [1116352408, 1899447441, 3049323471, 3921009573, 961987163, 1508970993, 2453635748, 2870763221,
     3624381080, 310598401, 607225278, 1426881987, 1925078388, 2162078206, 2614888103, 3248222580,
     3835390401, 4022224774, 264347078, 604807628, 770255983, 1249150122, 1555081692, 1996064986,
     2554220882, 2821834349, 2952996808, 3210313671, 3336571891, 3584528711, 113926993, 338241895,
     666307205, 773529912, 1294757372, 1396182291, 1695183700, 1986661051, 2177026350, 2456956037,
     2730485921, 2820302411, 3259730800, 3345764771, 3516065817, 3600352804, 4094571909, 275423344,
     430227734, 506948616, 659060556, 883997877, 958139571, 1322822218, 1537002063, 1747873779,
     1955562222, 2024104815, 2227730452, 2361852424, 2428436474, 2756734187, 3204031479, 3329325298]"

type_synonym hstate = "w32 \<times> w32 \<times> w32 \<times> w32 \<times> w32 \<times> w32 \<times> w32 \<times> w32"

definition H256 :: hstate where
  "H256 = (1779033703, 3144134277, 1013904242, 2773480762,
           1359893119, 2600822924, 528734635, 1541459225)"

definition rotr :: "nat \<Rightarrow> w32 \<Rightarrow> w32" where
  "rotr n x = drop_bit n x OR push_bit (32 - n) x"

definition Ch :: "w32 \<Rightarrow> w32 \<Rightarrow> w32 \<Rightarrow> w32" where
  "Ch x y z = (x AND y) XOR (NOT x AND z)"

definition Maj :: "w32 \<Rightarrow> w32 \<Rightarrow> w32 \<Rightarrow> w32" where
  "Maj x y z = (x AND y) XOR (x AND z) XOR (y AND z)"

definition bsig0 :: "w32 \<Rightarrow> w32" where
  "bsig0 x = rotr 2 x XOR rotr 13 x XOR rotr 22 x"

definition bsig1 :: "w32 \<Rightarrow> w32" where
  "bsig1 x = rotr 6 x XOR rotr 11 x XOR rotr 25 x"

definition ssig0 :: "w32 \<Rightarrow> w32" where
  "ssig0 x = rotr 7 x XOR rotr 18 x XOR drop_bit 3 x"

definition ssig1 :: "w32 \<Rightarrow> w32" where
  "ssig1 x = rotr 17 x XOR rotr 19 x XOR drop_bit 10 x"

text \<open>
  Big-endian conversions between words and bytes. The length of the message in bits is
  appended as a 64-bit word.
\<close>

definition be_bytes :: "nat \<Rightarrow> 'a::len word \<Rightarrow> byte list" where
  "be_bytes k w = map (\<lambda>i. ucast (drop_bit (8 * i) w)) (rev [0..<k])"

definition be_word :: "byte list \<Rightarrow> w32" where
  "be_word bs = foldl (\<lambda>acc b. push_bit 8 acc OR ucast b) 0 bs"

definition pad_message :: "byte list \<Rightarrow> byte list" where
  "pad_message m =
     m @ [0x80] @ replicate ((119 - length m mod 64) mod 64) 0
       @ be_bytes 8 (of_nat (8 * length m) :: 64 word)"

function chunks :: "nat \<Rightarrow> 'a list \<Rightarrow> 'a list list" where
  "chunks n xs = (if n = 0 \<or> xs = [] then [] else take n xs # chunks n (drop n xs))"
  by pat_completeness auto
termination
  by (relation "measure (\<lambda>(n, xs). length xs)") auto

primrec schedule :: "nat \<Rightarrow> w32 list \<Rightarrow> w32 list" where
  "schedule 0 w = w"
| "schedule (Suc k) w =
     schedule k
       (w @ [ssig1 (w ! (length w - 2)) + w ! (length w - 7)
             + ssig0 (w ! (length w - 15)) + w ! (length w - 16)])"

definition round256 :: "w32 \<times> w32 \<Rightarrow> hstate \<Rightarrow> hstate" where
  "round256 kw s =
     (case s of (a, b, c, d, e, f, g, h) \<Rightarrow>
        let t1 = h + bsig1 e + Ch e f g + fst kw + snd kw;
            t2 = bsig0 a + Maj a b c
        in (t1 + t2, a, b, c, d + t1, e, f, g))"

definition add_state :: "hstate \<Rightarrow> hstate \<Rightarrow> hstate" where
  "add_state s t =
     (case s of (a, b, c, d, e, f, g, h) \<Rightarrow>
      case t of (a', b', c', d', e', f', g', h') \<Rightarrow>
        (a + a', b + b', c + c', d + d', e + e', f + f', g + g', h + h'))"

definition compress :: "hstate \<Rightarrow> byte list \<Rightarrow> hstate" where
  "compress s block =
     add_state s (fold round256 (zip K256 (schedule 48 (map be_word (chunks 4 block)))) s)"

definition sha256 :: "byte list \<Rightarrow> hstate" where
  "sha256 m = foldl compress H256 (chunks 64 (pad_message m))"

definition state_bytes :: "hstate \<Rightarrow> byte list" where
  "state_bytes s =
     (case s of (a, b, c, d, e, f, g, h) \<Rightarrow>
        concat (map (be_bytes 4) [a, b, c, d, e, f, g, h]))"

definition hex_digit :: "nat \<Rightarrow> char" where
  "hex_digit n = ''0123456789abcdef'' ! (n mod 16)"

definition hex_byte :: "byte \<Rightarrow> string" where
  "hex_byte b = [hex_digit (unat b div 16), hex_digit (unat b mod 16)]"

definition hexdigest :: "byte list \<Rightarrow> string" where
  "hexdigest bs = concat (map hex_byte bs)"

definition calculate_sha256 :: "byte list \<Rightarrow> string" where
  "calculate_sha256 data = hexdigest (state_bytes (sha256 data))"

definition is_lower_hex :: "char \<Rightarrow> bool" where
  "is_lower_hex c = (c \<in> set ''0123456789abcdef'')"

section \<open>Python values and \<^verbatim>\<open>json.dumps\<close>\<close>

text \<open>
  The argument of \<^verbatim>\<open>send_json_message\<close> is an arbitrary Python object. The model
  has the objects \<^verbatim>\<open>json.dumps\<close> knows how to print (\<^verbatim>\<open>None\<close>, booleans,
  integers, strings, lists, tuples and dictionaries) and one kind it refuses (a set).
  A dictionary is an association list in insertion order; its keys are hashable objects:
  strings, integers, booleans, \<^verbatim>\<open>None\<close> or tuples. Floating point numbers are not
  modelled.
\<close>

datatype pykey = KStr string | KInt int | KBool bool | KNone | KTuple "pykey list"

datatype pyval =
    PyNone
  | PyBool bool
  | PyInt int
  | PyStr string
  | PyList "pyval list"
  | PyTuple "pyval list"
  | PyDict "(pykey \<times> pyval) list"
  | PySet "pykey list"

datatype exn =
    Again
  | ZMQError nat
  | OSError nat
  | TypeError
  | ValueError
  | UnicodeEncodeError
  | UnicodeDecodeError
  | AttributeError

text \<open>Decimal printing of integers, as \<^verbatim>\<open>str(int)\<close> does.\<close>

definition digit_char :: "nat \<Rightarrow> char" where
  "digit_char d = char_of (48 + d mod 10)"

function show_nat :: "nat \<Rightarrow> string" where
  "show_nat n = (if n < 10 then [digit_char n] else show_nat (n div 10) @ [digit_char (n mod 10)])"
  by pat_completeness auto
termination
  by (relation "measure id") auto

definition show_int :: "int \<Rightarrow> string" where
  "show_int i = (if i < 0 then CHR ''-'' # show_nat (nat (- i)) else show_nat (nat i))"

text \<open>
  String quoting with \<^verbatim>\<open>ensure_ascii=True\<close> (the default): the quote and the
  backslash are escaped, the control characters with a short form use it, every other
  character outside the printable ASCII range (space to tilde) becomes a four-digit
  \<^verbatim>\<open>\uXXXX\<close> escape.
\<close>

definition escape_char :: "char \<Rightarrow> string" where
  "escape_char c =
     (if c = CHR 0x22 then [CHR 0x5C, CHR 0x22]
      else if c = CHR 0x5C then [CHR 0x5C, CHR 0x5C]
      else if c = CHR 0x0A then [CHR 0x5C, CHR ''n'']
      else if c = CHR 0x0D then [CHR 0x5C, CHR ''r'']
      else if c = CHR 0x09 then [CHR 0x5C, CHR ''t'']
      else if c = CHR 0x08 then [CHR 0x5C, CHR ''b'']
      else if c = CHR 0x0C then [CHR 0x5C, CHR ''f'']
      else if 32 \<le> (of_char c :: nat) \<and> (of_char c :: nat) \<le> 126 then [c]
      else [CHR 0x5C, CHR ''u'', CHR ''0'', CHR ''0'',
            hex_digit (of_char c div 16), hex_digit (of_char c mod 16)])"

definition encode_basestring_ascii :: "string \<Rightarrow> string" where
  "encode_basestring_ascii s = [CHR 0x22] @ concat (map escape_char s) @ [CHR 0x22]"

text \<open>
  Dictionary keys: a string is kept, an integer, a boolean and \<^verbatim>\<open>None\<close> are
  printed as text, any other key raises \<^verbatim>\<open>TypeError\<close> (\<^verbatim>\<open>skipkeys\<close> is off).
\<close>

fun key_text :: "pykey \<Rightarrow> exn + string" where
  "key_text (KStr s) = Inr s"
| "key_text (KBool True) = Inr ''true''"
| "key_text (KBool False) = Inr ''false''"
| "key_text KNone = Inr ''null''"
| "key_text (KInt i) = Inr (show_int i)"
| "key_text (KTuple ks) = Inl TypeError"

definition newline_indent :: "nat \<Rightarrow> string" where
  "newline_indent lvl = CHR 0x0A # replicate (2 * lvl) CHR '' ''"

fun join :: "string \<Rightarrow> string list \<Rightarrow> string" where
  "join sep [] = []"
| "join sep [x] = x"
| "join sep (x # y # ys) = x @ sep @ join sep (y # ys)"

text \<open>
  The encoder of \<^verbatim>\<open>json.dumps(data, indent=2)\<close>: with an indent the item separator
  is a comma followed by a new line, the key separator a colon and a space; an empty
  container is printed without a line break. The first argument is the nesting level.
\<close>

fun iterencode :: "nat \<Rightarrow> pyval \<Rightarrow> exn + string"
  and iterencode_list :: "nat \<Rightarrow> pyval list \<Rightarrow> exn + string list"
  and iterencode_dict :: "nat \<Rightarrow> (pykey \<times> pyval) list \<Rightarrow> exn + string list"
where
  "iterencode lvl PyNone = Inr ''null''"
| "iterencode lvl (PyBool b) = Inr (if b then ''true'' else ''false'')"
| "iterencode lvl (PyInt i) = Inr (show_int i)"
| "iterencode lvl (PyStr s) = Inr (encode_basestring_ascii s)"
| "iterencode lvl (PyList xs) =
     (if xs = [] then Inr ''[]''
      else case iterencode_list (Suc lvl) xs of
             Inl e \<Rightarrow> Inl e
           | Inr items \<Rightarrow>
               Inr (''['' @ newline_indent (Suc lvl)
                    @ join ('','' @ newline_indent (Suc lvl)) items
                    @ newline_indent lvl @ '']''))"
| "iterencode lvl (PyTuple xs) =
     (if xs = [] then Inr ''[]''
      else case iterencode_list (Suc lvl) xs of
             Inl e \<Rightarrow> Inl e
           | Inr items \<Rightarrow>
               Inr (''['' @ newline_indent (Suc lvl)
                    @ join ('','' @ newline_indent (Suc lvl)) items
                    @ newline_indent lvl @ '']''))"
| "iterencode lvl (PyDict kvs) =
     (if kvs = [] then Inr ''{}''
      else case iterencode_dict (Suc lvl) kvs of
             Inl e \<Rightarrow> Inl e
           | Inr items \<Rightarrow>
               Inr (''{'' @ newline_indent (Suc lvl)
                    @ join ('','' @ newline_indent (Suc lvl)) items
                    @ newline_indent lvl @ ''}''))"
| "iterencode lvl (PySet ks) = Inl TypeError"
| "iterencode_list lvl [] = Inr []"
| "iterencode_list lvl (x # xs) =
     (case iterencode lvl x of
        Inl e \<Rightarrow> Inl e
      | Inr t \<Rightarrow> (case iterencode_list lvl xs of Inl e \<Rightarrow> Inl e | Inr ts \<Rightarrow> Inr (t # ts)))"
| "iterencode_dict lvl [] = Inr []"
| "iterencode_dict lvl (kv # kvs) =
     (case key_text (fst kv) of
        Inl e \<Rightarrow> Inl e
      | Inr k \<Rightarrow>
         (case iterencode lvl (snd kv) of
            Inl e \<Rightarrow> Inl e
          | Inr t \<Rightarrow>
             (case iterencode_dict lvl kvs of
                Inl e \<Rightarrow> Inl e
              | Inr ts \<Rightarrow> Inr ((encode_basestring_ascii k @ '': '' @ t) # ts))))"

definition json_dumps :: "pyval \<Rightarrow> exn + string" where
  "json_dumps data = iterencode 0 data"

section \<open>The client and its collaborators\<close>

text \<open>
  The client talks to three collaborators: the ZeroMQ library (a context, and a socket
  created from it), the file system and the console. Every call made on the context or
  on a socket is recorded in a trace, in the order the program makes it; the trace is
  what a transport test double would see.
\<close>

datatype sockopt = LINGER | RCVTIMEO | SNDTIMEO | IDENTITY

datatype call =
    CtxSocket
  | SetSockOpt nat sockopt int
  | SetSockOptString nat sockopt string
  | Connect nat string
  | SendString nat string bool
  | Send nat "byte list" bool
  | RecvString nat
  | Close nat
  | CtxTerm

text \<open>
  What the collaborators answer is not in the program's hands: it is a parameter. Each
  answer is a function of the calls made so far, the current call last, so that every
  sequence of answers is some environment. A call on the library either returns or raises
  an exception (of class \<^verbatim>\<open>Exception\<close>); \<^verbatim>\<open>context.socket\<close> returns a new socket,
  \<^verbatim>\<open>recv_string\<close> the text of the reply. \<^verbatim>\<open>fs_exists\<close> is \<^verbatim>\<open>Path.exists\<close> and
  \<^verbatim>\<open>fs_read\<close> is \<^verbatim>\<open>open(path, 'rb')\<close> followed by \<^verbatim>\<open>read()\<close>.
\<close>

record env =
  os_getpid :: nat
  time_time :: "call list \<Rightarrow> nat"
  zmq_socket :: "call list \<Rightarrow> exn + nat"
  zmq_call :: "call list \<Rightarrow> exn option"
  zmq_recv_string :: "call list \<Rightarrow> exn + string"
  fs_exists :: "string \<Rightarrow> exn + bool"
  fs_read :: "string \<Rightarrow> exn + byte list"

text \<open>The lines the program prints, one constructor for each \<^verbatim>\<open>print\<close> of the class.\<close>

datatype msg =
    MsgConnecting string
  | MsgConnected string
  | MsgConnectionFailed exn
  | MsgDisconnected
  | MsgNotConnected
  | MsgFileNotFound string
  | MsgSendingFile
  | MsgFilename string
  | MsgSize nat
  | MsgHash string
  | MsgFileSent
  | MsgServerReply string
  | MsgNoReply
  | MsgErrorSendingFile exn
  | MsgSendingMessage string
  | MsgErrorSendingMessage exn
  | MsgErrorEncodingJSON exn

datatype ctx = Context

text \<open>
  The fields of \<^verbatim>\<open>ANARIUSDClient\<close> (\<open>zmq_context\<close> is the field \<^verbatim>\<open>context\<close>),
  and the state a method runs in.
\<close>

record client =
  endpoint :: string
  zmq_context :: "ctx option"
  socket :: "nat option"
  connected :: bool

record st =
  self :: client
  trace :: "call list"
  console :: "msg list"

text \<open>
  A method is a function from the state to a result and the state it leaves. The result
  is \<open>Inr\<close> of the value returned, or \<open>Inl\<close> of the exception that leaves the method.
  \<open>bnd\<close> is sequencing: an exception skips the rest. \<open>try_except\<close> is
  \<^verbatim>\<open>try: ... except Exception as e: ...\<close> and \<open>try_except_again\<close> is
  \<^verbatim>\<open>try: ... except zmq.Again: ...\<close>; the state at the raise is the state the handler
  starts in.
\<close>

type_synonym 'a prog = "st \<Rightarrow> (exn + 'a) \<times> st"

definition ret :: "'a \<Rightarrow> 'a prog" where
  "ret a s = (Inr a, s)"

definition bnd :: "'a prog \<Rightarrow> ('a \<Rightarrow> 'b prog) \<Rightarrow> 'b prog" where
  "bnd m f s = (case m s of (Inl e, s') \<Rightarrow> (Inl e, s') | (Inr a, s') \<Rightarrow> f a s')"

definition try_except :: "'a prog \<Rightarrow> (exn \<Rightarrow> 'a prog) \<Rightarrow> 'a prog" where
  "try_except m h s = (case m s of (Inl e, s') \<Rightarrow> h e s' | (Inr a, s') \<Rightarrow> (Inr a, s'))"

definition try_except_again :: "'a prog \<Rightarrow> 'a prog \<Rightarrow> 'a prog" where
  "try_except_again m h s =
     (case m s of
        (Inl e, s') \<Rightarrow> (if e = Again then h s' else (Inl e, s'))
      | (Inr a, s') \<Rightarrow> (Inr a, s'))"

definition lift :: "exn + 'a \<Rightarrow> 'a prog" where
  "lift r s = (r, s)"

definition print :: "msg \<Rightarrow> unit prog" where
  "print m s = (Inr (), s\<lparr>console := console s @ [m]\<rparr>)"

definition lib_call :: "env \<Rightarrow> call \<Rightarrow> unit prog" where
  "lib_call E c s =
     (let h = trace s @ [c] in
      case zmq_call E h of
        Some e \<Rightarrow> (Inl e, s\<lparr>trace := h\<rparr>)
      | None \<Rightarrow> (Inr (), s\<lparr>trace := h\<rparr>))"

definition context_socket :: "env \<Rightarrow> nat prog" where
  "context_socket E s = (let h = trace s @ [CtxSocket] in (zmq_socket E h, s\<lparr>trace := h\<rparr>))"

definition recv_string :: "env \<Rightarrow> nat \<Rightarrow> string prog" where
  "recv_string E k s = (let h = trace s @ [RecvString k] in (zmq_recv_string E h, s\<lparr>trace := h\<rparr>))"

text \<open>
  A method call on \<^verbatim>\<open>self.socket\<close>: on \<^verbatim>\<open>None\<close> the attribute lookup raises
  \<^verbatim>\<open>AttributeError\<close>.
\<close>

definition self_socket :: "nat prog" where
  "self_socket s = (case socket (self s) of None \<Rightarrow> (Inl AttributeError, s) | Some k \<Rightarrow> (Inr k, s))"

definition set_socket :: "nat \<Rightarrow> unit prog" where
  "set_socket k s = (Inr (), s\<lparr>self := (self s)\<lparr>socket := Some k\<rparr>\<rparr>)"

definition set_connected :: "bool \<Rightarrow> unit prog" where
  "set_connected b s = (Inr (), s\<lparr>self := (self s)\<lparr>connected := b\<rparr>\<rparr>)"

text \<open>\<^verbatim>\<open>Path(file_path).name\<close>: the last component of a POSIX path, empty for a root.\<close>

fun split_path :: "string \<Rightarrow> string \<Rightarrow> string list" where
  "split_path acc [] = [rev acc]"
| "split_path acc (c # cs) =
     (if c = CHR ''/'' then rev acc # split_path [] cs else split_path (c # acc) cs)"

definition path_name :: "string \<Rightarrow> string" where
  "path_name p =
     (case rev (filter (\<lambda>part. part \<noteq> [] \<and> part \<noteq> ''.'') (split_path [] p)) of
        [] \<Rightarrow> []
      | part # _ \<Rightarrow> part)"

subsection \<open>The methods of \<^verbatim>\<open>ANARIUSDClient\<close>\<close>

definition init :: "string \<Rightarrow> st" where
  "init ep =
     \<lparr>self = \<lparr>endpoint = ep, zmq_context = Some Context, socket = None, connected = False\<rparr>,
      trace = [], console = []\<rparr>"

definition client_identity :: "env \<Rightarrow> st \<Rightarrow> string" where
  "client_identity E s =
     ''client_'' @ show_nat (os_getpid E) @ ''_'' @ show_nat (time_time E (trace s))"

definition connect :: "env \<Rightarrow> bool prog" where
  "connect E =
     try_except
       (bnd (context_socket E) (\<lambda>k.
        bnd (set_socket k) (\<lambda>_.
        bnd self_socket (\<lambda>k.
        bnd (lib_call E (SetSockOpt k LINGER 1000)) (\<lambda>_.
        bnd self_socket (\<lambda>k.
        bnd (lib_call E (SetSockOpt k RCVTIMEO 5000)) (\<lambda>_.
        bnd self_socket (\<lambda>k.
        bnd (lib_call E (SetSockOpt k SNDTIMEO 5000)) (\<lambda>_.
        (\<lambda>s. let identity = client_identity E s in
          (bnd self_socket (\<lambda>k.
           bnd (lib_call E (SetSockOptString k IDENTITY identity)) (\<lambda>_.
           bnd (print (MsgConnecting (endpoint (self s)))) (\<lambda>_.
           bnd self_socket (\<lambda>k.
           bnd (lib_call E (Connect k (endpoint (self s)))) (\<lambda>_.
           bnd (set_connected True) (\<lambda>_.
           bnd (print (MsgConnected identity)) (\<lambda>_.
           ret True)))))))) s))))))))))
       (\<lambda>e. bnd (print (MsgConnectionFailed e)) (\<lambda>_. ret False))"

definition disconnect :: "env \<Rightarrow> unit prog" where
  "disconnect E =
     bnd (\<lambda>s. case socket (self s) of
                 Some k \<Rightarrow> lib_call E (Close k) s
               | None \<Rightarrow> ret () s) (\<lambda>_.
     bnd (\<lambda>s. case zmq_context (self s) of
                 Some c \<Rightarrow> lib_call E CtxTerm s
               | None \<Rightarrow> ret () s) (\<lambda>_.
     bnd (set_connected False) (\<lambda>_.
     print MsgDisconnected)))"

definition await_reply :: "env \<Rightarrow> bool prog" where
  "await_reply E =
     try_except_again
       (bnd self_socket (\<lambda>k.
        bnd (recv_string E k) (\<lambda>reply.
        bnd (print (MsgServerReply reply)) (\<lambda>_.
        ret True))))
       (bnd (print MsgNoReply) (\<lambda>_. ret False))"

definition send_file :: "env \<Rightarrow> string \<Rightarrow> bool prog" where
  "send_file E file_path =
     (\<lambda>s. if \<not> connected (self s)
           then bnd (print MsgNotConnected) (\<lambda>_. ret False) s
           else
             try_except
               (bnd (lift (fs_exists E file_path)) (\<lambda>ex.
                if \<not> ex
                then bnd (print (MsgFileNotFound file_path)) (\<lambda>_. ret False)
                else
                  bnd (lift (fs_read E file_path)) (\<lambda>file_data.
                  let file_hash = calculate_sha256 file_data;
                      filename = path_name file_path
                  in
                  bnd (print MsgSendingFile) (\<lambda>_.
                  bnd (print (MsgFilename filename)) (\<lambda>_.
                  bnd (print (MsgSize (length file_data))) (\<lambda>_.
                  bnd (print (MsgHash (take 16 file_hash))) (\<lambda>_.
                  bnd self_socket (\<lambda>k.
                  bnd (lib_call E (SendString k filename True)) (\<lambda>_.
                  bnd self_socket (\<lambda>k.
                  bnd (lib_call E (Send k file_data True)) (\<lambda>_.
                  bnd self_socket (\<lambda>k.
                  bnd (lib_call E (SendString k file_hash False)) (\<lambda>_.
                  bnd (print MsgFileSent) (\<lambda>_.
                  await_reply E))))))))))))))
               (\<lambda>e. bnd (print (MsgErrorSendingFile e)) (\<lambda>_. ret False)) s)"

definition send_message :: "env \<Rightarrow> string \<Rightarrow> bool prog" where
  "send_message E message =
     (\<lambda>s. if \<not> connected (self s)
           then bnd (print MsgNotConnected) (\<lambda>_. ret False) s
           else
             try_except
               (bnd (print (MsgSendingMessage message)) (\<lambda>_.
                bnd self_socket (\<lambda>k.
                bnd (lib_call E (SendString k message False)) (\<lambda>_.
                await_reply E))))
               (\<lambda>e. bnd (print (MsgErrorSendingMessage e)) (\<lambda>_. ret False)) s)"

definition send_json_message :: "env \<Rightarrow> pyval \<Rightarrow> bool prog" where
  "send_json_message E data =
     try_except
       (bnd (lift (json_dumps data)) (\<lambda>json_str. send_message E json_str))
       (\<lambda>e. bnd (print (MsgErrorEncodingJSON e)) (\<lambda>_. ret False))"

subsection \<open>Test doubles\<close>

text \<open>
  Concrete environments, to run the methods on. In \<open>env_ok\<close> every library call
  returns, the peer answers \<^verbatim>\<open>OK\<close>, and the file system holds one file,
  \<^verbatim>\<open>/data/greeting.txt\<close> with the content \<^verbatim>\<open>hello\<close>, in the directory
  \<^verbatim>\<open>/data\<close> (which exists and cannot be read as a file).
\<close>

definition hello_bytes :: "byte list" where
  "hello_bytes = [0x68, 0x65, 0x6c, 0x6c, 0x6f]"

definition env_ok :: env where
  "env_ok =
     \<lparr>os_getpid = 4242,
      time_time = (\<lambda>h. 1700000000),
      zmq_socket = (\<lambda>h. Inr 0),
      zmq_call = (\<lambda>h. None),
      zmq_recv_string = (\<lambda>h. Inr ''OK''),
      fs_exists = (\<lambda>p. Inr (p = ''/data/greeting.txt'' \<or> p = ''/data'')),
      fs_read = (\<lambda>p. if p = ''/data/greeting.txt'' then Inr hello_bytes else Inl (OSError 21))\<rparr>"

subsection \<open>Sequences of calls\<close>

text \<open>
  A caller holds one client and calls its public methods one after the other. The state
  after a call is the state the method left, also when the method raised.
\<close>

datatype op =
    OpConnect
  | OpDisconnect
  | OpSendFile string
  | OpSendMessage string
  | OpSendJson pyval

fun exec_op :: "env \<Rightarrow> op \<Rightarrow> st \<Rightarrow> st" where
  "exec_op E OpConnect s = snd (connect E s)"
| "exec_op E OpDisconnect s = snd (disconnect E s)"
| "exec_op E (OpSendFile p) s = snd (send_file E p s)"
| "exec_op E (OpSendMessage m) s = snd (send_message E m s)"
| "exec_op E (OpSendJson v) s = snd (send_json_message E v s)"

definition run :: "env \<Rightarrow> op list \<Rightarrow> st \<Rightarrow> st" where
  "run E ops s = foldl (\<lambda>s' c. exec_op E c s') s ops"

definition socket_present :: "st \<Rightarrow> bool" where
  "socket_present s = (if connected (self s) then socket (self s) \<noteq> None else True)"





subsection \<open>Outcomes and frames\<close>








section \<open>Parsing JSON back\<close>







definition prepend :: "char \<Rightarrow> (string \<times> string) option \<Rightarrow> (string \<times> string) option" where
  "prepend c r = (case r of None \<Rightarrow> None | Some (t, rest) \<Rightarrow> Some (c # t, rest))"















section \<open>Properties\<close>

subsection \<open>The exception handlers\<close>

lemma handler_returns:
  "bnd (print m) (\<lambda>_. ret b) s = (Inr b, s\<lparr>console := console s @ [m]\<rparr>)"
  by (simp add: bnd_def print_def ret_def)

lemma try_except_returns:
  assumes "\<And>e s'. \<exists>b. fst (h e s') = Inr b"
  shows "\<exists>b. fst (try_except m h s) = Inr b"
proof (cases "m s")
  case (Pair r s')
  then show ?thesis using assms by (cases r) (simp_all add: try_except_def)
qed

lemma send_message_returns: "\<exists>b. fst (send_message E m s) = Inr b"
proof (cases "connected (self s)")
  case True
  then show ?thesis
    by (simp add: send_message_def) (rule try_except_returns, auto simp: handler_returns)
next
  case False
  then show ?thesis by (auto simp: send_message_def handler_returns)
qed






lemma json_dumps_failed:
  "json_dumps v = Inl e \<Longrightarrow>
   send_json_message E v s = (Inr False, s\<lparr>console := console s @ [MsgErrorEncodingJSON e]\<rparr>)"
  by (simp add: send_json_message_def try_except_def bnd_def lift_def print_def ret_def)

lemma json_dumps_delegated:
  assumes "json_dumps v = Inr t"
  shows "send_json_message E v s = send_message E t s"
proof -
  obtain b where "fst (send_message E t s) = Inr b"
    using send_message_returns by blast
  then show ?thesis
    using assms
    by (cases "send_message E t s")
       (simp add: send_json_message_def try_except_def bnd_def lift_def)
qed



subsection \<open>Sending while disconnected\<close>



subsection \<open>JSON messages\<close>



subsection \<open>The digest\<close>

lemma length_be_bytes: "length (be_bytes k n) = k"
  by (simp add: be_bytes_def)

lemma length_state_bytes: "length (state_bytes s) = 32"
  by (simp add: state_bytes_def length_be_bytes split: prod.splits)

lemma length_hexdigest: "length (hexdigest bs) = 2 * length bs"
  by (induction bs) (simp_all add: hexdigest_def hex_byte_def)

lemma hex_digit_lower: "is_lower_hex (hex_digit n)"
  unfolding is_lower_hex_def hex_digit_def by (rule nth_mem) simp

lemma hexdigest_lower: "list_all is_lower_hex (hexdigest bs)"
  by (induction bs) (simp_all add: hexdigest_def hex_byte_def hex_digit_lower)


text \<open>
  Claim C2. \<^verbatim>\<open>calculate_sha256\<close> is a function of the bytes alone (it takes no other
  argument and no state), it is total, and for every byte sequence, the empty one
  included, its value is a text of 64 characters, each a lowercase hexadecimal digit.
  Equal bytes give equal digests. The file name is not an argument: \<^verbatim>\<open>send_file\<close>
  applies it to the content read from the file.
\<close>

theorem digest_is_hex64:
  "length (calculate_sha256 b) = 64
   \<and> list_all is_lower_hex (calculate_sha256 b)
   \<and> (b1 = b2 \<longrightarrow> calculate_sha256 b1 = calculate_sha256 b2)"
  by (simp add: calculate_sha256_def length_hexdigest length_state_bytes hexdigest_lower)

theorem digest_is_hex64_witness:
  "length (calculate_sha256 []) = 64
   \<and> list_all is_lower_hex (calculate_sha256 [])
   \<and> calculate_sha256 hello_bytes = calculate_sha256 [0x68, 0x65, 0x6c, 0x6c, 0x6f]"
  using digest_is_hex64 [of "[]" hello_bytes "[0x68, 0x65, 0x6c, 0x6c, 0x6f]"]
  by (simp add: hello_bytes_def)

subsection \<open>The socket of a connected client\<close>

lemmas prog_defs =
  try_except_def try_except_again_def bnd_def print_def ret_def lift_def self_socket_def
  lib_call_def recv_string_def context_socket_def set_socket_def set_connected_def Let_def

lemma send_message_self: "self (snd (send_message E m s)) = self s"
  by (auto simp: send_message_def await_reply_def prog_defs
      split: sum.splits option.splits prod.splits if_splits)

lemma send_file_self: "self (snd (send_file E p s)) = self s"
  by (auto simp: send_file_def await_reply_def prog_defs
       split: sum.splits option.splits prod.splits if_splits)

lemma send_json_message_self: "self (snd (send_json_message E v s)) = self s"
proof (cases "json_dumps v")
  case (Inl e)
  then show ?thesis by (simp add: json_dumps_failed)
next
  case (Inr t)
  then show ?thesis by (simp add: json_dumps_delegated send_message_self)
qed

lemma disconnect_self:
  "\<not> connected (self (snd (disconnect E s))) \<or> self (snd (disconnect E s)) = self s"
  by (auto simp: disconnect_def prog_defs
      split: sum.splits option.splits prod.splits if_splits)

lemma connect_socket_present: "socket_present s \<Longrightarrow> socket_present (snd (connect E s))"
  by (auto simp: connect_def socket_present_def prog_defs
      split: sum.splits option.splits prod.splits if_splits)

lemma exec_op_socket_present: "socket_present s \<Longrightarrow> socket_present (exec_op E c s)"
proof (cases c)
  case OpConnect
  assume "socket_present s"
  then show ?thesis using OpConnect by (simp add: connect_socket_present)
next
  case OpDisconnect
  assume "socket_present s"
  then show ?thesis
    using OpDisconnect disconnect_self [of E s] by (auto simp: socket_present_def)
next
  case (OpSendFile p)
  assume "socket_present s"
  then show ?thesis using OpSendFile by (simp add: socket_present_def send_file_self)
next
  case (OpSendMessage m)
  assume "socket_present s"
  then show ?thesis using OpSendMessage by (simp add: socket_present_def send_message_self)
next
  case (OpSendJson v)
  assume "socket_present s"
  then show ?thesis using OpSendJson by (simp add: socket_present_def send_json_message_self)
qed

lemma run_socket_present: "socket_present s \<Longrightarrow> socket_present (run E ops s)"
  unfolding run_def
  by (induction ops arbitrary: s) (simp_all add: exec_op_socket_present)

lemma connect_env_ok:
  "self (snd (connect env_ok (init ep))) =
     \<lparr>endpoint = ep, zmq_context = Some Context, socket = Some 0, connected = True\<rparr>"
  by (simp add: connect_def init_def env_ok_def prog_defs)

text \<open>
  Claim C10. Start from a new client and call any public methods in any order, with any
  answers of the collaborators. In the state reached, if \<^verbatim>\<open>connected\<close> is true then
  \<^verbatim>\<open>self.socket\<close> is a socket, not \<^verbatim>\<open>None\<close>, and a method call on it finds the
  socket (it does not raise \<^verbatim>\<open>AttributeError\<close>).
\<close>

theorem connected_has_socket:
  "connected (self (run E ops (init ep))) \<longrightarrow>
     (\<exists>k. socket (self (run E ops (init ep))) = Some k
        \<and> self_socket (run E ops (init ep)) = (Inr k, run E ops (init ep)))"
proof -
  have "socket_present (init ep)"
    by (simp add: socket_present_def init_def)
  then have "socket_present (run E ops (init ep))"
    by (rule run_socket_present)
  then show ?thesis
    by (auto simp: socket_present_def self_socket_def)
qed

theorem connected_has_socket_witness:
  "connected (self (run env_ok [OpConnect] (init ''tcp://localhost:5556'')))
   \<and> (\<exists>k. socket (self (run env_ok [OpConnect] (init ''tcp://localhost:5556''))) = Some k
        \<and> self_socket (run env_ok [OpConnect] (init ''tcp://localhost:5556'')) =
           (Inr k, run env_ok [OpConnect] (init ''tcp://localhost:5556'')))"
  using connected_has_socket [of env_ok "[OpConnect]" "''tcp://localhost:5556''"]
  by (simp add: run_def connect_env_ok)

subsection \<open>Disconnecting\<close>








subsection \<open>Exceptions at the boundary of a method\<close>




subsection \<open>Validation before any transport call\<close>








subsection \<open>What a caller learns from the returned value\<close>










subsection \<open>The file envelope\<close>


lemma send_file_calls_prefix:
  assumes "connected (self s)" and "socket (self s) = Some k"
    and "fs_exists E p = Inr True" and "fs_read E p = Inr b"
  shows "\<exists>n. trace (snd (send_file E p s)) =
           trace s @ take n [SendString k (path_name p) True, Send k b True,
                             SendString k (calculate_sha256 b) False, RecvString k]"
proof -
  let ?cs = "[SendString k (path_name p) True, Send k b True,
              SendString k (calculate_sha256 b) False, RecvString k]"
  have "trace (snd (send_file E p s)) = trace s @ take 1 ?cs
      \<or> trace (snd (send_file E p s)) = trace s @ take 2 ?cs
      \<or> trace (snd (send_file E p s)) = trace s @ take 3 ?cs
      \<or> trace (snd (send_file E p s)) = trace s @ take 4 ?cs"
    using assms
    by (auto simp: send_file_def await_reply_def prog_defs
        split: sum.splits option.splits prod.splits if_splits)
  then show ?thesis by blast
qed



subsection \<open>Parsing back what the encoder printed\<close>

declare show_nat.simps [simp del]



lemma prepend_Some [simp]: "prepend c (Some (t, r)) = Some (c # t, r)"
  by (simp add: prepend_def)










































































end
